theory Spec2Isabelle
  imports Complex_Main "HOL-Library.Word"
begin

section \<open>Actor descriptors (NxActorDesc.h)\<close>

text \<open>
  The descriptor classes of \<^verbatim>\<open>Includes/Novodex/Physics/include/NxActorDesc.h\<close>.
  \<^verbatim>\<open>NxReal\<close> is the SDK's single-precision scalar. The descriptor only compares
  such scalars, so a scalar is modelled by the value it denotes: a number, one of the two
  infinities, or NaN. The two signed zeros denote the same number, as they compare equal.
\<close>

datatype NxReal = NxNum real | NxPosInf | NxNegInf | NxNaN

text \<open>
  The comparison \<^verbatim>\<open>a < b\<close> of two scalars: false as soon as one of them is NaN,
  otherwise the order of the extended real line.
\<close>

fun NxReal_less :: "NxReal \<Rightarrow> NxReal \<Rightarrow> bool" where
  "NxReal_less NxNaN b = False"
| "NxReal_less a NxNaN = False"
| "NxReal_less (NxNum x) (NxNum y) = (x < y)"
| "NxReal_less NxNegInf NxNegInf = False"
| "NxReal_less NxNegInf b = True"
| "NxReal_less a NxNegInf = False"
| "NxReal_less NxPosInf b = False"
| "NxReal_less a NxPosInf = True"

text \<open>
  The literals \<^verbatim>\<open>0.0f\<close> and \<^verbatim>\<open>1.0f\<close> and the operators \<^verbatim>\<open><\<close> and \<^verbatim>\<open><=\<close> on
  scalars. \<^verbatim>\<open>a != 0.0f\<close> is \<open>a \<noteq> 0\<close>: it holds of NaN and of the infinities, and
  \<^verbatim>\<open>a == 0.0f\<close> is \<open>a = 0\<close>.
\<close>

instantiation NxReal :: "{zero, one, ord}"
begin

definition zero_NxReal :: NxReal where
  "zero_NxReal = NxNum 0"

definition one_NxReal :: NxReal where
  "one_NxReal = NxNum 1"

definition less_NxReal :: "NxReal \<Rightarrow> NxReal \<Rightarrow> bool" where
  "less_NxReal a b = NxReal_less a b"

definition less_eq_NxReal :: "NxReal \<Rightarrow> NxReal \<Rightarrow> bool" where
  "less_eq_NxReal a b = (NxReal_less a b \<or> (a = b \<and> a \<noteq> NxNaN))"

instance ..

end

type_synonym NxU32 = "32 word"
type_synonym NxActorGroup = "16 word"

datatype ActorDescType =
    NX_ADT_SHAPELESS
  | NX_ADT_DEFAULT
  | NX_ADT_ALLOCATOR
  | NX_ADT_LIST
  | NX_ADT_POINTER

datatype NxVec3 = NxVec3 NxReal NxReal NxReal

text \<open>
  Modelled from the spec: \<^verbatim>\<open>NxVec3::isZero\<close> (NxVec3.h is not among the sources).
  The descriptor's own documentation reads the test as
  \<^verbatim>\<open>massSpaceInertia.magnitude() == 0\<close>: the vector is zero when each of its three
  components is.
\<close>

fun NxVec3_isZero :: "NxVec3 \<Rightarrow> bool" where
  "NxVec3_isZero (NxVec3 a b c) = (a = 0 \<and> b = 0 \<and> c = 0)"

text \<open>
  Of \<^verbatim>\<open>NxBodyDesc\<close> (NxBodyDesc.h is not among the sources) the descriptor reads two
  fields, \<^verbatim>\<open>mass\<close> and \<^verbatim>\<open>massSpaceInertia\<close>, and calls \<^verbatim>\<open>isValid()\<close>.
\<close>

record NxBodyDesc =
  mass :: NxReal
  massSpaceInertia :: NxVec3

text \<open>
  What the descriptor uses of headers that are not among the sources is a parameter of
  the model: the pose type \<^verbatim>\<open>NxMat34\<close> (the type variable \<open>'pose\<close>) with its identity
  \<^verbatim>\<open>id()\<close> and its test \<^verbatim>\<open>isFinite()\<close>, \<^verbatim>\<open>NxBodyDesc::isValid()\<close>, and the shape
  descriptors (the type variable \<open>'shape\<close>) with \<^verbatim>\<open>NxShapeDesc::isValid()\<close>.
\<close>

record ('pose, 'shape) NxFoundation =
  NxMat34_id :: 'pose
  NxMat34_isFinite :: "'pose \<Rightarrow> bool"
  NxBodyDesc_isValid :: "NxBodyDesc \<Rightarrow> bool"
  NxShapeDesc_isValid :: "'shape \<Rightarrow> bool"

text \<open>
  \<^verbatim>\<open>class NxActorDescBase\<close>. A pointer field is an option (\<open>None\<close> is \<^verbatim>\<open>NULL\<close>);
  \<^verbatim>\<open>userData\<close> and \<^verbatim>\<open>name\<close> are only stored, so their targets are plain addresses.
\<close>

record 'pose NxActorDescBase =
  globalPose :: 'pose
  body :: "NxBodyDesc option"
  density :: NxReal
  flags :: NxU32
  group :: NxActorGroup
  userData :: "nat option"
  name :: "nat option"
  type :: ActorDescType

text \<open>\<^verbatim>\<open>class NxActorDesc : public NxActorDescBase\<close> adds the array of shapes.\<close>

record ('pose, 'shape) NxActorDesc = "'pose NxActorDescBase" +
  shapes :: "'shape list"

definition NxActorDescBase_setToDefault ::
  "('pose, 'shape) NxFoundation \<Rightarrow> ('pose, 'more) NxActorDescBase_scheme
     \<Rightarrow> ('pose, 'more) NxActorDescBase_scheme" where
  "NxActorDescBase_setToDefault nx d =
     d\<lparr> body := None,
        density := 0,
        globalPose := NxMat34_id nx,
        flags := 0,
        userData := None,
        name := None,
        group := 0 \<rparr>"

definition NxActorDescBase_isValid ::
  "('pose, 'shape) NxFoundation \<Rightarrow> ('pose, 'more) NxActorDescBase_scheme \<Rightarrow> bool" where
  "NxActorDescBase_isValid nx d =
     (if density d < 0 then False
      else if (case body d of None \<Rightarrow> False | Some b \<Rightarrow> \<not> NxBodyDesc_isValid nx b) then False
      else if \<not> NxMat34_isFinite nx (globalPose d) then False
      else True)"

text \<open>
  \<^verbatim>\<open>isValidInternal\<close>. The source writes the tensor test as
  \<^verbatim>\<open>!(body->massSpaceInertia.isZero() > 0.0f)\<close>: the boolean is promoted to 1 or 0
  before it is compared with zero.
\<close>

definition NxActorDescBase_isValidInternal ::
  "('pose, 'more) NxActorDescBase_scheme \<Rightarrow> bool \<Rightarrow> bool" where
  "NxActorDescBase_isValidInternal d haveShape =
     (let haveDensity = (density d \<noteq> 0);
          haveMass = (case body d of None \<Rightarrow> False | Some b \<Rightarrow> mass b \<noteq> 0);
          haveTensor = (case body d of None \<Rightarrow> False
                        | Some b \<Rightarrow> \<not> ((if NxVec3_isZero (massSpaceInertia b) then 1 else 0) > (0::NxReal)))
      in if haveShape \<and> body d = None then True
         else if haveShape \<and> haveDensity \<and> \<not> haveMass \<and> \<not> haveTensor then True
         else if haveShape \<and> \<not> haveDensity \<and> haveMass \<and> \<not> haveTensor then True
         else if \<not> haveDensity \<and> haveMass \<and> haveTensor then True
         else False)"

definition NxActorDesc_setToDefault ::
  "('pose, 'shape) NxFoundation \<Rightarrow> ('pose, 'shape) NxActorDesc \<Rightarrow> ('pose, 'shape) NxActorDesc" where
  "NxActorDesc_setToDefault nx d = (NxActorDescBase_setToDefault nx d)\<lparr> shapes := [] \<rparr>"

text \<open>
  The constructor \<^verbatim>\<open>NxActorDesc::NxActorDesc()\<close> runs on uninitialised storage: \<open>raw\<close>
  is whatever the fields held before.
\<close>

definition NxActorDesc_ctor ::
  "('pose, 'shape) NxFoundation \<Rightarrow> ('pose, 'shape) NxActorDesc \<Rightarrow> ('pose, 'shape) NxActorDesc" where
  "NxActorDesc_ctor nx raw = (NxActorDesc_setToDefault nx raw)\<lparr> type := NX_ADT_DEFAULT \<rparr>"

text \<open>
  The loop \<^verbatim>\<open>for (i = 0; i < shapes.size(); i++) if (!shapes[i]->isValid()) return false;\<close>
  of \<^verbatim>\<open>NxActorDesc::isValid\<close>: \<open>False\<close> is the early return, \<open>True\<close> is falling out of
  the loop.
\<close>

fun shapes_loop :: "('pose, 'shape) NxFoundation \<Rightarrow> 'shape list \<Rightarrow> bool" where
  "shapes_loop nx [] = True"
| "shapes_loop nx (s # ss) = (if \<not> NxShapeDesc_isValid nx s then False else shapes_loop nx ss)"

definition NxActorDesc_isValid ::
  "('pose, 'shape) NxFoundation \<Rightarrow> ('pose, 'shape) NxActorDesc \<Rightarrow> bool" where
  "NxActorDesc_isValid nx d =
     (if \<not> NxActorDescBase_isValid nx d then False
      else if \<not> shapes_loop nx (shapes d) then False
      else if \<not> NxActorDescBase_isValidInternal d (length (shapes d) > 0) then False
      else True)"






section \<open>The actor's sleep control and kinematic motion queue (NxActor.h)\<close>

text \<open>
  \<^verbatim>\<open>class NxActor\<close> declares its methods pure virtual; their bodies are not among the
  sources. The entry points below are therefore written from the specification of the
  rigid-body actor (its data model, the SleepController and the KinematicMotionQueue)
  and from the documentation of the declarations.
\<close>

text \<open>
  Modelled from the spec: the kinds of body and the sleep states of the data model, and
  the error taxonomy of the error handling design (no declaration of them is among the
  sources).
\<close>

datatype BodyKind = Static | Dynamic | Kinematic

datatype SleepState = Awake | Sleeping

datatype ActorError = InvalidDescriptor | ContractViolation | DegenerateGeometry

text \<open>
  Modelled from the spec: the target that \<^verbatim>\<open>moveGlobalPose\<close>, \<^verbatim>\<open>moveGlobalPosition\<close>
  and \<^verbatim>\<open>moveGlobalOrientation\<close> store (their bodies are missing). Each call "stores
  target into pendingMotion", so the queue holds the argument of the call as it was
  given: a pose, a position or an orientation (the type variable \<open>'rot\<close> is \<^verbatim>\<open>NxMat33\<close>).
\<close>

datatype ('pose, 'rot) MotionTarget =
    TargetPose 'pose
  | TargetPosition NxVec3
  | TargetOrientation 'rot

text \<open>
  Modelled from the spec: the state of a RigidBodyActor behind \<^verbatim>\<open>NxActor\<close> (the
  implementing class is missing), with the fields of the data model that the sleep
  control and the motion queue read or write.
\<close>

record ('pose, 'rot) RigidBodyActor =
  pose :: 'pose
  kind :: BodyKind
  linearVelocity :: NxVec3
  angularVelocity :: NxVec3
  wakeCounter :: NxReal
  sleepState :: SleepState
  pendingMotion :: "('pose, 'rot) MotionTarget option"

text \<open>
  Modelled from the spec: \<^verbatim>\<open>NxActor::isSleeping\<close> (body missing) reads the sleep state.
\<close>

definition isSleeping :: "('pose, 'rot) RigidBodyActor \<Rightarrow> bool" where
  "isSleeping a = (sleepState a = Sleeping)"

text \<open>
  Modelled from the spec: \<^verbatim>\<open>NxActor::putToSleep\<close> (body missing), "an unconditional,
  immediate transition to Sleeping with velocities zeroed, bypassing the threshold
  check". The actor must be dynamic: a Static body's velocity cannot be mutated, which the
  error taxonomy reports as a ContractViolation.
\<close>

definition putToSleep ::
  "('pose, 'rot) RigidBodyActor \<Rightarrow> ActorError + ('pose, 'rot) RigidBodyActor" where
  "putToSleep a =
     (if kind a = Static then Inl ContractViolation
      else Inr (a\<lparr> sleepState := Sleeping,
                   linearVelocity := NxVec3 0 0 0,
                   angularVelocity := NxVec3 0 0 0 \<rparr>))"

text \<open>
  Modelled from the spec: \<^verbatim>\<open>NxActor::wakeUp\<close> (body missing), the "explicit
  wakeUp(counter) call, which resets wakeCounter to the given value and marks Awake".
\<close>

definition wakeUp ::
  "NxReal \<Rightarrow> ('pose, 'rot) RigidBodyActor \<Rightarrow> ActorError + ('pose, 'rot) RigidBodyActor" where
  "wakeUp wakeCounterValue a =
     (if kind a = Static then Inl ContractViolation
      else Inr (a\<lparr> sleepState := Awake, wakeCounter := wakeCounterValue \<rparr>))"

text \<open>
  Modelled from the spec: \<^verbatim>\<open>NxActor::moveGlobalPose\<close>, \<^verbatim>\<open>moveGlobalPosition\<close> and
  \<^verbatim>\<open>moveGlobalOrientation\<close> (bodies missing). Each "stores target into pendingMotion,
  fully overwriting any previous target"; in the words of the declaration, the functions
  "simply store the move destination until run*() is called". Nothing else of the actor
  changes.
\<close>

definition moveGlobalPose ::
  "'pose \<Rightarrow> ('pose, 'rot) RigidBodyActor \<Rightarrow> ('pose, 'rot) RigidBodyActor" where
  "moveGlobalPose m a = a\<lparr> pendingMotion := Some (TargetPose m) \<rparr>"

definition moveGlobalPosition ::
  "NxVec3 \<Rightarrow> ('pose, 'rot) RigidBodyActor \<Rightarrow> ('pose, 'rot) RigidBodyActor" where
  "moveGlobalPosition p a = a\<lparr> pendingMotion := Some (TargetPosition p) \<rparr>"

definition moveGlobalOrientation ::
  "'rot \<Rightarrow> ('pose, 'rot) RigidBodyActor \<Rightarrow> ('pose, 'rot) RigidBodyActor" where
  "moveGlobalOrientation r a = a\<lparr> pendingMotion := Some (TargetOrientation r) \<rparr>"

text \<open>
  The calls a client makes between two steps, in the order it makes them.
\<close>

datatype ('pose, 'rot) MoveCall =
    MoveGlobalPose 'pose
  | MoveGlobalPosition NxVec3
  | MoveGlobalOrientation 'rot

fun callTarget :: "('pose, 'rot) MoveCall \<Rightarrow> ('pose, 'rot) MotionTarget" where
  "callTarget (MoveGlobalPose m) = TargetPose m"
| "callTarget (MoveGlobalPosition p) = TargetPosition p"
| "callTarget (MoveGlobalOrientation r) = TargetOrientation r"

fun moveCall ::
  "('pose, 'rot) MoveCall \<Rightarrow> ('pose, 'rot) RigidBodyActor \<Rightarrow> ('pose, 'rot) RigidBodyActor" where
  "moveCall (MoveGlobalPose m) a = moveGlobalPose m a"
| "moveCall (MoveGlobalPosition p) a = moveGlobalPosition p a"
| "moveCall (MoveGlobalOrientation r) a = moveGlobalOrientation r a"

fun moveCalls ::
  "('pose, 'rot) MoveCall list \<Rightarrow> ('pose, 'rot) RigidBodyActor \<Rightarrow> ('pose, 'rot) RigidBodyActor" where
  "moveCalls [] a = a"
| "moveCalls (c # cs) a = moveCalls cs (moveCall c a)"

section \<open>A sample instance\<close>

text \<open>
  A small instance of the parameters, for evaluating the checks on concrete descriptors:
  two poses, of which one is finite; two shape descriptors, of which one is valid; a body
  descriptor is valid when its mass is not negative.
\<close>

datatype SamplePose = PoseIdentity | PoseNotFinite

datatype SampleShape = ShapeValid | ShapeInvalid

definition sampleFoundation :: "(SamplePose, SampleShape) NxFoundation" where
  "sampleFoundation =
     \<lparr> NxMat34_id = PoseIdentity,
       NxMat34_isFinite = (\<lambda>p. p = PoseIdentity),
       NxBodyDesc_isValid = (\<lambda>b. \<not> mass b < 0),
       NxShapeDesc_isValid = (\<lambda>s. s = ShapeValid) \<rparr>"

definition sampleBody :: "NxReal \<Rightarrow> NxVec3 \<Rightarrow> NxBodyDesc" where
  "sampleBody m i = \<lparr> mass = m, massSpaceInertia = i \<rparr>"

definition sampleDesc ::
  "SamplePose \<Rightarrow> NxBodyDesc option \<Rightarrow> NxReal \<Rightarrow> SampleShape list
     \<Rightarrow> (SamplePose, SampleShape) NxActorDesc" where
  "sampleDesc p b dens ss =
     \<lparr> globalPose = p, body = b, density = dens, flags = 0, group = 0,
       userData = None, name = None, type = NX_ADT_DEFAULT, shapes = ss \<rparr>"

definition sampleActor :: "BodyKind \<Rightarrow> SleepState \<Rightarrow> (SamplePose, unit) RigidBodyActor" where
  "sampleActor k s =
     \<lparr> pose = PoseIdentity, kind = k, linearVelocity = NxVec3 (NxNum 3) 0 0,
       angularVelocity = NxVec3 0 (NxNum 5) 0, wakeCounter = 0, sleepState = s,
       pendingMotion = None \<rparr>"


section \<open>Comparisons with zero\<close>

lemma NxReal_less_zero:
  "x < 0 \<longleftrightarrow> (\<exists>r. x = NxNum r \<and> r < 0) \<or> x = NxNegInf"
  by (cases x) (simp_all add: less_NxReal_def zero_NxReal_def)


lemma NxReal_zero_le:
  "0 \<le> x \<longleftrightarrow> (\<exists>r. x = NxNum r \<and> 0 \<le> r) \<or> x = NxPosInf"
  by (cases x) (auto simp: less_eq_NxReal_def zero_NxReal_def)

lemma NxReal_zero_le_not_less: "0 \<le> x \<Longrightarrow> \<not> x < (0::NxReal)"
  by (auto simp: NxReal_zero_le NxReal_less_zero)



lemma NxReal_zero_not_positive: "\<not> (0::NxReal) > 0"
  by (simp add: less_NxReal_def zero_NxReal_def)

section \<open>Properties of the descriptor checks\<close>


text \<open>
  C10. A default-constructed \<^verbatim>\<open>NxActorDesc\<close> has no body, density 0, no shape and the
  identity pose, whatever its storage held before. Its density passes the sign test, and
  the base check \<^verbatim>\<open>NxActorDescBase::isValid\<close> passes exactly when the identity pose
  is finite; \<^verbatim>\<open>isValidInternal\<close> nevertheless returns false for it, so
  \<^verbatim>\<open>NxActorDesc::isValid\<close> returns false.
\<close>

theorem default_desc_not_valid:
  fixes nx :: "('pose, 'shape) NxFoundation" and raw :: "('pose, 'shape) NxActorDesc"
  defines "d \<equiv> NxActorDesc_ctor nx raw"
  shows "body d = None \<and> density d = 0 \<and> shapes d = [] \<and> globalPose d = NxMat34_id nx
         \<and> \<not> density d < 0
         \<and> NxActorDescBase_isValid nx d = NxMat34_isFinite nx (NxMat34_id nx)
         \<and> \<not> NxActorDescBase_isValidInternal d (length (shapes d) > 0)
         \<and> \<not> NxActorDesc_isValid nx d"
  by (simp add: d_def NxActorDesc_ctor_def NxActorDesc_setToDefault_def
      NxActorDescBase_setToDefault_def NxActorDescBase_isValid_def
      NxActorDescBase_isValidInternal_def NxActorDesc_isValid_def NxReal_zero_not_positive)

theorem default_desc_not_valid_witness:
  "NxActorDescBase_isValid sampleFoundation
     (NxActorDesc_ctor sampleFoundation
        (sampleDesc PoseNotFinite (Some (sampleBody (NxNum 2) (NxVec3 1 1 1))) (NxNum 7) [ShapeInvalid]))
   \<and> \<not> NxActorDesc_isValid sampleFoundation
     (NxActorDesc_ctor sampleFoundation
        (sampleDesc PoseNotFinite (Some (sampleBody (NxNum 2) (NxVec3 1 1 1))) (NxNum 7) [ShapeInvalid]))"
  using default_desc_not_valid [of sampleFoundation
      "sampleDesc PoseNotFinite (Some (sampleBody (NxNum 2) (NxVec3 1 1 1))) (NxNum 7) [ShapeInvalid]"]
  by (simp add: sampleFoundation_def)

text \<open>
  C2. The base checks of a descriptor. Validation fails, in \<^verbatim>\<open>NxActorDescBase::isValid\<close>
  and hence in \<^verbatim>\<open>NxActorDesc::isValid\<close>, whenever the density is negative, the global
  pose is not finite, or a body descriptor is present and not valid; a descriptor with
  density at least 0, a finite pose and no invalid body passes the base checks. (The
  scene creates an actor only from a descriptor that \<^verbatim>\<open>isValid\<close> accepted; creation
  itself is not part of these sources.)
\<close>

theorem base_checks:
  fixes d :: "('pose, 'shape) NxActorDesc"
  shows "(density d < 0 \<or> \<not> NxMat34_isFinite nx (globalPose d)
            \<or> (\<exists>b. body d = Some b \<and> \<not> NxBodyDesc_isValid nx b)
          \<longrightarrow> \<not> NxActorDescBase_isValid nx d \<and> \<not> NxActorDesc_isValid nx d)
       \<and> (0 \<le> density d \<and> NxMat34_isFinite nx (globalPose d)
            \<and> (\<forall>b. body d = Some b \<longrightarrow> NxBodyDesc_isValid nx b)
          \<longrightarrow> NxActorDescBase_isValid nx d)"
  by (auto simp: NxActorDescBase_isValid_def NxActorDesc_isValid_def
      dest: NxReal_zero_le_not_less split: option.splits)

theorem base_checks_witness:
  "\<not> NxActorDesc_isValid sampleFoundation
       (sampleDesc PoseIdentity (Some (sampleBody (NxNum 2) (NxVec3 1 1 1))) (NxNum (- 1)) [])
   \<and> \<not> NxActorDesc_isValid sampleFoundation
       (sampleDesc PoseNotFinite (Some (sampleBody (NxNum 2) (NxVec3 1 1 1))) 0 [])
   \<and> \<not> NxActorDesc_isValid sampleFoundation
       (sampleDesc PoseIdentity (Some (sampleBody (NxNum (- 2)) (NxVec3 1 1 1))) 0 [])
   \<and> NxActorDescBase_isValid sampleFoundation
       (sampleDesc PoseIdentity (Some (sampleBody (NxNum 2) (NxVec3 1 1 1))) 0 [])"
  using
    base_checks [of "sampleDesc PoseIdentity (Some (sampleBody (NxNum 2) (NxVec3 1 1 1))) (NxNum (- 1)) []"
      sampleFoundation]
    base_checks [of "sampleDesc PoseNotFinite (Some (sampleBody (NxNum 2) (NxVec3 1 1 1))) 0 []"
      sampleFoundation]
    base_checks [of "sampleDesc PoseIdentity (Some (sampleBody (NxNum (- 2)) (NxVec3 1 1 1))) 0 []"
      sampleFoundation]
    base_checks [of "sampleDesc PoseIdentity (Some (sampleBody (NxNum 2) (NxVec3 1 1 1))) 0 []"
      sampleFoundation]
  by (simp add: sampleDesc_def sampleBody_def sampleFoundation_def less_NxReal_def
      less_eq_NxReal_def zero_NxReal_def)





section \<open>Properties of the sleep control and the motion queue\<close>

text \<open>
  C7. For a dynamic body (one that is not Static) in any state, \<^verbatim>\<open>putToSleep\<close> succeeds;
  right after it \<^verbatim>\<open>isSleeping\<close> holds and the linear and the angular velocity are zero,
  whatever the velocities and thresholds were before. A following \<^verbatim>\<open>wakeUp\<close> succeeds,
  leaves the body not sleeping and sets the wake counter to the value given.
\<close>

theorem putToSleep_then_wakeUp:
  assumes "kind a \<noteq> Static"
  shows "\<exists>a'. putToSleep a = Inr a'
           \<and> isSleeping a'
           \<and> linearVelocity a' = NxVec3 0 0 0
           \<and> angularVelocity a' = NxVec3 0 0 0
           \<and> (\<exists>a''. wakeUp c a' = Inr a'' \<and> \<not> isSleeping a'' \<and> wakeCounter a'' = c)"
  using assms by (simp add: putToSleep_def wakeUp_def isSleeping_def)

theorem putToSleep_then_wakeUp_witness:
  "\<exists>a'. putToSleep (sampleActor Dynamic Awake) = Inr a'
           \<and> isSleeping a'
           \<and> linearVelocity a' = NxVec3 0 0 0
           \<and> angularVelocity a' = NxVec3 0 0 0
           \<and> (\<exists>a''. wakeUp (NxNum 20) a' = Inr a'' \<and> \<not> isSleeping a'' \<and> wakeCounter a'' = NxNum 20)"
proof -
  have "kind (sampleActor Dynamic Awake) \<noteq> Static"
    by (simp add: sampleActor_def)
  then show ?thesis
    by (rule putToSleep_then_wakeUp)
qed

text \<open>
  A later call overwrites the target of an earlier one and leaves no other trace of it,
  so a sequence of calls comes down to its last call.
\<close>

lemma moveCall_overwrites: "moveCall c (moveCall c' a) = moveCall c a"
  by (cases c; cases c')
    (simp_all add: moveGlobalPose_def moveGlobalPosition_def moveGlobalOrientation_def)

lemma moveCall_pending: "pendingMotion (moveCall c a) = Some (callTarget c)"
  by (cases c)
    (simp_all add: moveGlobalPose_def moveGlobalPosition_def moveGlobalOrientation_def)

lemma moveCalls_last: "moveCalls (cs @ [c]) a = moveCall c a"
proof (induction cs arbitrary: a)
  case Nil
  show ?case by simp
next
  case (Cons c' cs)
  have "moveCalls ((c' # cs) @ [c]) a = moveCalls (cs @ [c]) (moveCall c' a)"
    by simp
  also have "\<dots> = moveCall c (moveCall c' a)"
    by (rule Cons.IH)
  also have "\<dots> = moveCall c a"
    by (rule moveCall_overwrites)
  finally show ?case .
qed

text \<open>
  C9. Last write wins. After any sequence of \<^verbatim>\<open>moveGlobalPose\<close>,
  \<^verbatim>\<open>moveGlobalPosition\<close> and \<^verbatim>\<open>moveGlobalOrientation\<close> calls made with no step in
  between, the pending motion is the target of the last call, and the whole actor is in
  the state that the last call alone would have left it in. So whatever the next step
  computes from the actor, it computes the same as if only the last call had been made:
  the earlier targets have no part in the resulting motion.
\<close>

theorem last_move_wins:
  "pendingMotion (moveCalls (cs @ [c]) a) = Some (callTarget c)
   \<and> moveCalls (cs @ [c]) a = moveCall c a
   \<and> (\<forall>step. step (moveCalls (cs @ [c]) a) = step (moveCall c a))"
  by (simp add: moveCalls_last moveCall_pending)

end
